theory Spec2Isabelle
  imports Main "HOL-Library.Word"
begin

section \<open>kazlog: the positional formatter and the logger dispatch\<close>

text \<open>
  A shallow embedding of \<^verbatim>\<open>kazlog/kazlog.h\<close>. Strings are \<open>string\<close>, the
  \<^verbatim>\<open>int32_t\<close> line numbers and counters are 32-bit words read as signed, exceptions
  are the left summand of a result type, and the effects of a logging call (clock readings,
  handler calls, the static table of \<^verbatim>\<open>warn_once\<close>) are threaded through an
  explicit \<open>world\<close>.
\<close>

subsection \<open>Severity levels\<close>

datatype LOG_LEVEL =
  LOG_LEVEL_NONE | LOG_LEVEL_ERROR | LOG_LEVEL_WARN | LOG_LEVEL_INFO | LOG_LEVEL_DEBUG

text \<open>The enumerators' values; the guards of the logger compare levels through them.\<close>

fun level_val :: "LOG_LEVEL \<Rightarrow> nat" where
  "level_val LOG_LEVEL_NONE = 0"
| "level_val LOG_LEVEL_ERROR = 1"
| "level_val LOG_LEVEL_WARN = 2"
| "level_val LOG_LEVEL_INFO = 3"
| "level_val LOG_LEVEL_DEBUG = 4"

subsection \<open>Decimal text of an \<^verbatim>\<open>int32_t\<close>\<close>

type_synonym int32 = "32 word"

definition digit_char :: "nat \<Rightarrow> char" where
  "digit_char d = ''0123456789'' ! d"

fun nat_digits :: "nat \<Rightarrow> string" where
  "nat_digits n =
     (if n < 10 then [digit_char n] else nat_digits (n div 10) @ [digit_char (n mod 10)])"

declare nat_digits.simps [simp del]

text \<open>\<^verbatim>\<open>std::to_string(int)\<close> and \<^verbatim>\<open>ss << int\<close>: decimal, a minus sign when
  negative.\<close>

definition to_string :: "int32 \<Rightarrow> string" where
  "to_string v =
     (if sint v < 0 then CHR ''-'' # nat_digits (nat (- sint v)) else nat_digits (nat (sint v)))"

subsection \<open>The two \<^verbatim>\<open>std::string\<close> operations the formatter uses\<close>

datatype fmt_error =
    OutOfRange  \<comment> \<open>\<^verbatim>\<open>std::out_of_range\<close>, thrown by \<^verbatim>\<open>std::string::replace\<close>\<close>
  | IllFormed   \<comment> \<open>the instantiation has no viable function: the call is rejected\<close>

text \<open>\<^verbatim>\<open>s.find(pat)\<close>: the position of the first occurrence of \<open>pat\<close>, and
  \<open>None\<close> for \<^verbatim>\<open>npos\<close>.\<close>

fun string_find :: "string \<Rightarrow> string \<Rightarrow> nat option" where
  "string_find [] pat = (if pat = [] then Some 0 else None)"
| "string_find (c # cs) pat =
     (if take (length pat) (c # cs) = pat then Some 0
      else map_option Suc (string_find cs pat))"

text \<open>\<^verbatim>\<open>s.replace(pos, len, r)\<close> throws when \<open>pos\<close> is beyond the end of
  \<open>s\<close>, which \<^verbatim>\<open>npos\<close> is for every string; otherwise the \<open>len\<close> characters at
  \<open>pos\<close> (fewer at the end of the string) give way to \<open>r\<close>.\<close>

definition string_replace :: "string \<Rightarrow> nat option \<Rightarrow> nat \<Rightarrow> string \<Rightarrow> fmt_error + string" where
  "string_replace s pos len r =
     (case pos of
        None \<Rightarrow> Inl OutOfRange
      | Some p \<Rightarrow> if length s < p then Inl OutOfRange
                  else Inr (take p s @ r @ drop (p + len) s))"

subsection \<open>Formatter\<close>

text \<open>
  The values a call of \<^verbatim>\<open>format\<close> is given here: an \<^verbatim>\<open>int32_t\<close>, as the
  logger passes, or a string. \<open>CounterArg\<close> is a \<^verbatim>\<open>Formatter::Counter\<close>: the
  struct is private, but the formatter itself passes one to \<^verbatim>\<open>format\<close> in the
  recursive step of \<^verbatim>\<open>do_format\<close>.
\<close>

datatype fmt_arg = IntArg int32 | StrArg string | CounterArg int32

text \<open>\<^verbatim>\<open>ss << val; ss.str()\<close>. A \<^verbatim>\<open>Counter\<close> has no \<^verbatim>\<open>operator<<\<close> and
  converts to nothing that has one, so the statement is ill-formed for it.\<close>

fun ostream_insert :: "fmt_arg \<Rightarrow> string option" where
  "ostream_insert (IntArg i) = Some (to_string i)"
| "ostream_insert (StrArg s) = Some s"
| "ostream_insert (CounterArg c) = None"

definition to_replace :: "int32 \<Rightarrow> string" where
  "to_replace count = ''{'' @ to_string count @ ''}''"

text \<open>
  \<^verbatim>\<open>format(args...)\<close> is \<^verbatim>\<open>do_format(Counter(), args...)\<close>. The overload of
  \<^verbatim>\<open>do_format\<close> for one value replaces and returns; the variadic one replaces and
  then calls \<^verbatim>\<open>Formatter(result).format(Counter(count.val + 1), args...)\<close>, that
  is \<^verbatim>\<open>format\<close> again, with the next counter as the first of the values to print.
  No overload takes the counter alone, so \<^verbatim>\<open>format()\<close> is ill-formed.

  An ill-formed call is rejected when the program is compiled. The model follows the
  order of execution and gives \<open>Inl IllFormed\<close> at the statement that does not compile;
  where a call with several values would throw before it reaches that statement the model
  shows the exception, though the program is rejected all the same. Either way such a
  call returns no string (\<open>format_many_fails\<close> below).
\<close>

function format :: "string \<Rightarrow> fmt_arg list \<Rightarrow> fmt_error + string"
  and do_format :: "string \<Rightarrow> int32 \<Rightarrow> fmt_arg list \<Rightarrow> fmt_error + string" where
  "format str args = do_format str 0 args"
| "do_format str count [] = Inl IllFormed"
| "do_format str count [val] =
     (case ostream_insert val of
        None \<Rightarrow> Inl IllFormed
      | Some s \<Rightarrow>
          string_replace str (string_find str (to_replace count)) (length (to_replace count)) s)"
| "do_format str count (val # a # args) =
     (case ostream_insert val of
        None \<Rightarrow> Inl IllFormed
      | Some s \<Rightarrow>
          (case string_replace str (string_find str (to_replace count))
                  (length (to_replace count)) s of
             Inl e \<Rightarrow> Inl e
           | Inr result \<Rightarrow> format result (CounterArg (count + 1) # a # args)))"
  by pat_completeness auto
termination
  by (relation "measure (\<lambda>x. case x of
          Inl (str, args) \<Rightarrow> (case args of CounterArg c # r \<Rightarrow> 1 | _ \<Rightarrow> 3)
        | Inr (str, count, args) \<Rightarrow> (case args of CounterArg c # r \<Rightarrow> 0 | _ \<Rightarrow> 2))")
     (auto split: list.splits fmt_arg.splits)

declare format.simps [simp del]

subsection \<open>Handlers, the clock and the world\<close>

text \<open>
  A logger holds \<^verbatim>\<open>Handler::ptr\<close>s and passes \<^verbatim>\<open>this\<close> to them: both are
  identities of objects, here numbers. \<^verbatim>\<open>DateTime\<close> is a point of the system clock.
\<close>

type_synonym handler = nat
type_synonym logger_id = nat
type_synonym DateTime = nat

text \<open>One call \<^verbatim>\<open>handler->write_message(logger, time, level, message)\<close>, with its
  arguments. The header declares \<^verbatim>\<open>Handler::write_message\<close> and leaves what a handler
  writes to its subclasses; the model records that the call was made.\<close>

record invocation =
  inv_handler :: handler
  inv_logger :: logger_id
  inv_time :: DateTime
  inv_level :: string
  inv_message :: string

text \<open>
  What a logging call reads and changes outside the logger: the handler calls made so far,
  the function-local \<^verbatim>\<open>static\<close> map \<open>warned\<close> of \<^verbatim>\<open>warn_once\<close> (one object
  for the whole process, shared by all loggers), the system clock as the sequence of its
  readings together with the number of readings taken, and the text that
  \<^verbatim>\<open>std::this_thread::get_id()\<close> prints as.
\<close>

record world =
  invocations :: "invocation list"
  warned :: "string \<rightharpoonup> int32 set"
  clock :: "nat \<Rightarrow> DateTime"
  reads :: nat
  thread_id :: string

text \<open>The fields \<^verbatim>\<open>name_\<close>, \<^verbatim>\<open>handlers_\<close> and \<^verbatim>\<open>level_\<close>, and the address of the object.\<close>

record logger =
  this :: logger_id
  name :: string
  handlers :: "handler list"
  level :: LOG_LEVEL

text \<open>\<^verbatim>\<open>std::chrono::system_clock::now()\<close>: the next reading of the clock.\<close>

definition now :: "world \<Rightarrow> DateTime \<times> world" where
  "now w = (clock w (reads w), w\<lparr>reads := Suc (reads w)\<rparr>)"

definition handler_write_message ::
  "handler \<Rightarrow> logger_id \<Rightarrow> DateTime \<Rightarrow> string \<Rightarrow> string \<Rightarrow> world \<Rightarrow> world" where
  "handler_write_message h lg t lvl message w =
     w\<lparr>invocations := invocations w @
          [\<lparr>inv_handler = h, inv_logger = lg, inv_time = t, inv_level = lvl,
            inv_message = message\<rparr>]\<rparr>"

subsection \<open>Logger\<close>

definition Logger :: "logger_id \<Rightarrow> string \<Rightarrow> logger" where
  "Logger p nm = \<lparr>this = p, name = nm, handlers = [], level = LOG_LEVEL_DEBUG\<rparr>"

definition add_handler :: "handler \<Rightarrow> logger \<Rightarrow> logger" where
  "add_handler h L = L\<lparr>handlers := handlers L @ [h]\<rparr>"

definition set_level :: "LOG_LEVEL \<Rightarrow> logger \<Rightarrow> logger" where
  "set_level lvl L = L\<lparr>level := lvl\<rparr>"

text \<open>The loop of \<^verbatim>\<open>write_message\<close> over \<^verbatim>\<open>handlers_\<close>, from the first handler
  to the last; each round reads the clock for its own call.\<close>

fun call_handlers :: "handler list \<Rightarrow> logger_id \<Rightarrow> string \<Rightarrow> string \<Rightarrow> world \<Rightarrow> world" where
  "call_handlers [] lg lvl message w = w"
| "call_handlers (h # hs) lg lvl message w =
     (let (t, w') = now w
      in call_handlers hs lg lvl message (handler_write_message h lg t lvl message w'))"

definition write_message ::
  "logger \<Rightarrow> string \<Rightarrow> string \<Rightarrow> string \<Rightarrow> int32 \<Rightarrow> world \<Rightarrow> fmt_error + world" where
  "write_message L lvl text file line w =
     (case format ''{0}'' [IntArg line] of
        Inl e \<Rightarrow> Inl e
      | Inr n \<Rightarrow>
          Inr (call_handlers (handlers L) (this L) lvl
                 (thread_id w @ '': '' @ text @ '' ('' @ file @ '':'' @ n @ '')'') w))"

definition debug :: "logger \<Rightarrow> string \<Rightarrow> string \<Rightarrow> int32 \<Rightarrow> world \<Rightarrow> fmt_error + world" where
  "debug L text file line w =
     (if level_val (level L) < level_val LOG_LEVEL_DEBUG then Inr w
      else write_message L ''DEBUG'' text file line w)"

definition info :: "logger \<Rightarrow> string \<Rightarrow> string \<Rightarrow> int32 \<Rightarrow> world \<Rightarrow> fmt_error + world" where
  "info L text file line w =
     (if level_val (level L) < level_val LOG_LEVEL_INFO then Inr w
      else write_message L ''INFO'' text file line w)"

definition warn :: "logger \<Rightarrow> string \<Rightarrow> string \<Rightarrow> int32 \<Rightarrow> world \<Rightarrow> fmt_error + world" where
  "warn L text file line w =
     (if level_val (level L) < level_val LOG_LEVEL_WARN then Inr w
      else write_message L ''WARN'' text file line w)"

definition already_logged :: "world \<Rightarrow> string \<Rightarrow> int32 \<Rightarrow> bool" where
  "already_logged w file line =
     (case warned w file of None \<Rightarrow> False | Some lines \<Rightarrow> line \<in> lines)"

text \<open>\<^verbatim>\<open>warned[file].insert(line)\<close>; the subscript creates the empty set for a new
  file.\<close>

definition warned_insert :: "string \<Rightarrow> int32 \<Rightarrow> world \<Rightarrow> world" where
  "warned_insert file line w =
     w\<lparr>warned := (warned w)(file \<mapsto>
          insert line (case warned w file of None \<Rightarrow> {} | Some lines \<Rightarrow> lines))\<rparr>"

definition warn_once :: "logger \<Rightarrow> string \<Rightarrow> string \<Rightarrow> int32 \<Rightarrow> world \<Rightarrow> fmt_error + world" where
  "warn_once L text file line w =
     (if line = - 1 then warn L text file line w
      else if already_logged w file line then Inr w
      else warn L text file line (warned_insert file line w))"

definition error :: "logger \<Rightarrow> string \<Rightarrow> string \<Rightarrow> int32 \<Rightarrow> world \<Rightarrow> fmt_error + world" where
  "error L text file line w =
     (if level_val (level L) < level_val LOG_LEVEL_ERROR then Inr w
      else write_message L ''ERROR'' text file line w)"

text \<open>Two calls one after the other; an exception of the first ends the sequence.\<close>

definition and_then ::
  "fmt_error + world \<Rightarrow> (world \<Rightarrow> fmt_error + world) \<Rightarrow> fmt_error + world" where
  "and_then r f = (case r of Inl e \<Rightarrow> Inl e | Inr w \<Rightarrow> f w)"

text \<open>The handler calls made so far, when the call returned.\<close>

definition calls :: "fmt_error + world \<Rightarrow> invocation list option" where
  "calls r = (case r of Inl e \<Rightarrow> None | Inr w \<Rightarrow> Some (invocations w))"

text \<open>The handler calls of one round of the loop over \<open>hs\<close>, in the order of \<open>hs\<close>,
  when the clock has been read \<open>n\<close> times before.\<close>

abbreviation records_for ::
  "handler list \<Rightarrow> logger_id \<Rightarrow> string \<Rightarrow> string \<Rightarrow> (nat \<Rightarrow> DateTime) \<Rightarrow> nat
     \<Rightarrow> invocation list" where
  "records_for hs lg lvl message clk n \<equiv>
     map (\<lambda>(i, h). \<lparr>inv_handler = h, inv_logger = lg, inv_time = clk i, inv_level = lvl,
                     inv_message = message\<rparr>) (enumerate n hs)"

text \<open>The line a record is written with.\<close>

abbreviation assembled :: "world \<Rightarrow> string \<Rightarrow> string \<Rightarrow> int32 \<Rightarrow> string" where
  "assembled w text file line \<equiv>
     thread_id w @ '': '' @ text @ '' ('' @ file @ '':'' @ to_string line @ '')''"

section \<open>Facts about the formatter\<close>

lemma to_string_0: "to_string 0 = ''0''"
  by (simp add: to_string_def nat_digits.simps digit_char_def)

lemma to_replace_0: "to_replace 0 = ''{0}''"
  by (simp add: to_replace_def to_string_0)

lemma format_single:
  "format str [val] =
     (case ostream_insert val of
        None \<Rightarrow> Inl IllFormed
      | Some s \<Rightarrow> string_replace str (string_find str ''{0}'') 3 s)"
  by (simp add: format.simps to_replace_0 numeral_3_eq_3 split: option.splits)

lemma format_variadic:
  "format str (val # a # args) =
     (case ostream_insert val of
        None \<Rightarrow> Inl IllFormed
      | Some s \<Rightarrow>
          (case string_replace str (string_find str ''{0}'') 3 s of
             Inl e \<Rightarrow> Inl e
           | Inr result \<Rightarrow> format result (CounterArg 1 # a # args)))"
  by (simp add: format.simps [of str] to_replace_0 numeral_3_eq_3 split: option.splits sum.splits)

lemma format_Counter: "format str (CounterArg c # args) = Inl IllFormed"
  by (cases args) (simp_all add: format.simps)

lemma string_find_le: "string_find s pat = Some n \<Longrightarrow> n \<le> length s"
  by (induction s arbitrary: n) (auto split: if_splits)

lemma string_replace_found:
  "string_find str pat = Some n \<Longrightarrow>
     string_replace str (Some n) len r = Inr (take n str @ r @ drop (n + len) str)"
  by (auto simp: string_replace_def dest: string_find_le)

lemma format_line: "format ''{0}'' [IntArg line] = Inr (to_string line)"
  by (simp add: format_single string_replace_def)

lemma format_many_fails: "\<exists>e. format str (a # b # args) = Inl e"
  by (auto simp: format_variadic format_Counter split: option.splits sum.splits)

lemma to_string_42: "to_string 42 = ''42''"
  by (simp add: to_string_def nat_digits.simps digit_char_def)

lemma to_string_minus_1: "to_string (- 1) = ''-1''"
  by (simp add: to_string_def nat_digits.simps digit_char_def)

lemma to_string_10: "to_string 10 = ''10''"
  by (simp add: to_string_def nat_digits.simps digit_char_def)

lemma to_string_11: "to_string 11 = ''11''"
  by (simp add: to_string_def nat_digits.simps digit_char_def)

section \<open>Facts about the dispatch\<close>

lemma call_handlers_eq:
  "call_handlers hs lg lvl message w =
     w\<lparr>invocations := invocations w @ records_for hs lg lvl message (clock w) (reads w),
       reads := reads w + length hs\<rparr>"
proof (induction hs arbitrary: w)
  case Nil
  show ?case by simp
next
  case (Cons h hs)
  show ?case
    by (simp add: Cons.IH now_def handler_write_message_def)
qed

lemma write_message_eq:
  "write_message L lvl text file line w =
     Inr (w\<lparr>invocations := invocations w @
              records_for (handlers L) (this L) lvl (assembled w text file line)
                (clock w) (reads w),
            reads := reads w + length (handlers L)\<rparr>)"
  by (simp add: write_message_def format_line call_handlers_eq)

lemma records_for_handlers:
  "map inv_handler (records_for hs lg lvl message clk n) = hs"
  by (induction hs arbitrary: n) simp_all

lemma records_for_messages:
  "map inv_message (records_for hs lg lvl message clk n) = replicate (length hs) message"
  by (induction hs arbitrary: n) simp_all


lemma warn_emits:
  "level_val LOG_LEVEL_WARN \<le> level_val (level L) \<Longrightarrow>
   warn L text file line w =
     Inr (w\<lparr>invocations := invocations w @
              records_for (handlers L) (this L) ''WARN'' (assembled w text file line)
                (clock w) (reads w),
            reads := reads w + length (handlers L)\<rparr>)"
  by (simp add: warn_def write_message_eq)

lemma warn_suppressed:
  "level_val (level L) < level_val LOG_LEVEL_WARN \<Longrightarrow> warn L text file line w = Inr w"
  by (simp add: warn_def)

lemma already_logged_warned_insert:
  "already_logged (warned_insert file line w) f l \<longleftrightarrow>
     already_logged w f l \<or> (f = file \<and> l = line)"
  by (auto simp: already_logged_def warned_insert_def split: option.splits)

lemma warned_insert_fields:
  "invocations (warned_insert file line w) = invocations w"
  "clock (warned_insert file line w) = clock w"
  "reads (warned_insert file line w) = reads w"
  "thread_id (warned_insert file line w) = thread_id w"
  by (simp_all add: warned_insert_def)

lemma already_logged_other_fields:
  "already_logged (w\<lparr>invocations := i, reads := r\<rparr>) f l = already_logged w f l"
  by (simp add: already_logged_def)

lemma warn_once_fresh:
  "line \<noteq> - 1 \<Longrightarrow> \<not> already_logged w file line \<Longrightarrow>
   warn_once L text file line w = warn L text file line (warned_insert file line w)"
  by (simp add: warn_once_def)

lemma warn_once_seen:
  "line \<noteq> - 1 \<Longrightarrow> already_logged w file line \<Longrightarrow> warn_once L text file line w = Inr w"
  by (simp add: warn_once_def)

lemma warn_keeps_warned:
  "warn L text file line w = Inr w' \<Longrightarrow> warned w' = warned w"
  by (auto simp: warn_def write_message_eq split: if_splits)

lemma already_logged_cong:
  "warned w' = warned w \<Longrightarrow> already_logged w' f l = already_logged w f l"
  by (simp add: already_logged_def)

lemma warn_once_grows:
  "warn_once L text file line w = Inr w' \<Longrightarrow> already_logged w f l \<Longrightarrow> already_logged w' f l"
  by (auto simp: warn_once_def already_logged_warned_insert split: if_splits
           dest!: warn_keeps_warned dest: already_logged_cong [THEN iffD2])

section \<open>The claims\<close>

subsection \<open>Severity filter\<close>

text \<open>
  C1: a call of \<^verbatim>\<open>debug\<close>, \<^verbatim>\<open>info\<close>, \<^verbatim>\<open>warn\<close> or \<^verbatim>\<open>error\<close> reaches the
  handlers only if the value of its level is at most that of the logger's \<^verbatim>\<open>level_\<close>.
  For a logger at \<^verbatim>\<open>LOG_LEVEL_INFO\<close>, \<^verbatim>\<open>debug\<close> calls no handler, and
  \<^verbatim>\<open>warn\<close> and \<^verbatim>\<open>error\<close> each call every attached handler once, in the order of
  attachment.
\<close>

theorem threshold_filter:
  "(calls (debug L text file line w) \<noteq> Some (invocations w) \<longrightarrow>
      level_val LOG_LEVEL_DEBUG \<le> level_val (level L)) \<and>
   (calls (info L text file line w) \<noteq> Some (invocations w) \<longrightarrow>
      level_val LOG_LEVEL_INFO \<le> level_val (level L)) \<and>
   (calls (warn L text file line w) \<noteq> Some (invocations w) \<longrightarrow>
      level_val LOG_LEVEL_WARN \<le> level_val (level L)) \<and>
   (calls (error L text file line w) \<noteq> Some (invocations w) \<longrightarrow>
      level_val LOG_LEVEL_ERROR \<le> level_val (level L)) \<and>
   (level L = LOG_LEVEL_INFO \<longrightarrow>
      calls (debug L text file line w) = Some (invocations w) \<and>
      calls (warn L text file line w) =
        Some (invocations w @
              records_for (handlers L) (this L) ''WARN'' (assembled w text file line)
                (clock w) (reads w)) \<and>
      map inv_handler
        (records_for (handlers L) (this L) ''WARN'' (assembled w text file line)
           (clock w) (reads w)) = handlers L \<and>
      calls (error L text file line w) =
        Some (invocations w @
              records_for (handlers L) (this L) ''ERROR'' (assembled w text file line)
                (clock w) (reads w)) \<and>
      map inv_handler
        (records_for (handlers L) (this L) ''ERROR'' (assembled w text file line)
           (clock w) (reads w)) = handlers L)"
proof -
  have d: "calls (debug L text file line w) \<noteq> Some (invocations w) \<longrightarrow>
      level_val LOG_LEVEL_DEBUG \<le> level_val (level L)"
    by (simp add: debug_def calls_def)
  have i: "calls (info L text file line w) \<noteq> Some (invocations w) \<longrightarrow>
      level_val LOG_LEVEL_INFO \<le> level_val (level L)"
    by (simp add: info_def calls_def)
  have wn: "calls (warn L text file line w) \<noteq> Some (invocations w) \<longrightarrow>
      level_val LOG_LEVEL_WARN \<le> level_val (level L)"
    by (simp add: warn_def calls_def)
  have e: "calls (error L text file line w) \<noteq> Some (invocations w) \<longrightarrow>
      level_val LOG_LEVEL_ERROR \<le> level_val (level L)"
    by (simp add: error_def calls_def)
  have p: "level L = LOG_LEVEL_INFO \<longrightarrow>
      calls (debug L text file line w) = Some (invocations w) \<and>
      calls (warn L text file line w) =
        Some (invocations w @
              records_for (handlers L) (this L) ''WARN'' (assembled w text file line)
                (clock w) (reads w)) \<and>
      calls (error L text file line w) =
        Some (invocations w @
              records_for (handlers L) (this L) ''ERROR'' (assembled w text file line)
                (clock w) (reads w))"
    by (simp add: debug_def warn_def error_def write_message_eq calls_def)
  from d i wn e p show ?thesis
    using records_for_handlers by blast
qed

text \<open>At a logger with two handlers: at \<^verbatim>\<open>LOG_LEVEL_DEBUG\<close> a call of \<^verbatim>\<open>debug\<close>
  reaches them, at \<^verbatim>\<open>LOG_LEVEL_INFO\<close> it does not and \<^verbatim>\<open>warn\<close> calls the first
  handler and then the second.\<close>

theorem threshold_filter_witness:
  "calls (debug \<lparr>this = 0, name = ''root'', handlers = [1, 2], level = LOG_LEVEL_DEBUG\<rparr>
            ''x'' ''f.cpp'' 10
            \<lparr>invocations = [], warned = map_of [], clock = id, reads = 0, thread_id = ''7''\<rparr>)
     \<noteq> Some [] \<and>
   level_val LOG_LEVEL_DEBUG \<le> level_val LOG_LEVEL_DEBUG \<and>
   calls (debug \<lparr>this = 0, name = ''root'', handlers = [1, 2], level = LOG_LEVEL_INFO\<rparr>
            ''x'' ''f.cpp'' 10
            \<lparr>invocations = [], warned = map_of [], clock = id, reads = 0, thread_id = ''7''\<rparr>)
     = Some [] \<and>
   calls (warn \<lparr>this = 0, name = ''root'', handlers = [1, 2], level = LOG_LEVEL_INFO\<rparr>
            ''x'' ''f.cpp'' 10
            \<lparr>invocations = [], warned = map_of [], clock = id, reads = 0, thread_id = ''7''\<rparr>)
     = Some [\<lparr>inv_handler = 1, inv_logger = 0, inv_time = 0, inv_level = ''WARN'',
               inv_message = ''7: x (f.cpp:10)''\<rparr>,
             \<lparr>inv_handler = 2, inv_logger = 0, inv_time = 1, inv_level = ''WARN'',
               inv_message = ''7: x (f.cpp:10)''\<rparr>]"
proof -
  let ?w = "\<lparr>invocations = [], warned = map_of [], clock = id, reads = 0, thread_id = ''7''\<rparr>"
  let ?D = "\<lparr>this = 0, name = ''root'', handlers = [1, 2], level = LOG_LEVEL_DEBUG\<rparr>"
  let ?I = "\<lparr>this = 0, name = ''root'', handlers = [1, 2], level = LOG_LEVEL_INFO\<rparr>"
  have h: "calls (debug ?D ''x'' ''f.cpp'' 10 ?w) \<noteq> Some (invocations ?w)"
    by (simp add: debug_def write_message_eq calls_def)
  have "level_val LOG_LEVEL_DEBUG \<le> level_val (level ?D)"
    using h threshold_filter [of ?D "''x''" "''f.cpp''" 10 ?w] by blast
  moreover have "calls (debug ?I ''x'' ''f.cpp'' 10 ?w) = Some (invocations ?w) \<and>
      calls (warn ?I ''x'' ''f.cpp'' 10 ?w) =
        Some (invocations ?w @
              records_for (handlers ?I) (this ?I) ''WARN'' (assembled ?w ''x'' ''f.cpp'' 10)
                (clock ?w) (reads ?w))"
    using threshold_filter [of ?I "''x''" "''f.cpp''" 10 ?w] by simp
  ultimately show ?thesis
    using h by (simp add: to_string_10 enumerate_eq_zip upt_rec)
qed

subsection \<open>Formatting several values\<close>

text \<open>
  C2: a template with the placeholders \<^verbatim>\<open>{0}\<close> to \<^verbatim>\<open>{N-1}\<close> and \<open>N\<close> values is
  to come back with each placeholder replaced by its value, so that \<^verbatim>\<open>"{0}-{1}"\<close>
  with 42 and \<^verbatim>\<open>"x"\<close> gives \<^verbatim>\<open>"42-x"\<close>. The code does not get there: after the
  first replacement the variadic \<^verbatim>\<open>do_format\<close> calls \<^verbatim>\<open>format\<close>, not itself, on
  \<^verbatim>\<open>"42-{1}"\<close> with \<^verbatim>\<open>Counter(1)\<close> as the first value, and a \<^verbatim>\<open>Counter\<close>
  cannot be written to a stream; the call with two values is ill-formed.
\<close>

theorem format_two_values:
  "do_format ''{0}-{1}'' 0 [IntArg 42, StrArg ''x''] =
     format ''42-{1}'' [CounterArg 1, StrArg ''x''] \<and>
   format ''{0}-{1}'' [IntArg 42, StrArg ''x''] = Inl IllFormed"
  by (simp add: format_variadic format_Counter to_replace_0 to_string_42 string_replace_def)

text \<open>
  C10: substitution is meant to go one value at a time over the partly substituted
  string, so that \<^verbatim>\<open>"{0}{1}"\<close> with \<^verbatim>\<open>"{1}"\<close> and \<^verbatim>\<open>"x"\<close> would give
  \<^verbatim>\<open>"x{1}"\<close>. The first step does produce \<^verbatim>\<open>"{1}{1}"\<close>; the second step is
  the call of \<^verbatim>\<open>format\<close> with a \<^verbatim>\<open>Counter\<close> in front, which is ill-formed, as
  for every call with two values or more.
\<close>

theorem format_injected_placeholder:
  "do_format ''{0}{1}'' 0 [StrArg ''{1}'', StrArg ''x''] =
     format ''{1}{1}'' [CounterArg 1, StrArg ''x''] \<and>
   format ''{0}{1}'' [StrArg ''{1}'', StrArg ''x''] = Inl IllFormed"
  by (simp add: format_variadic format_Counter to_replace_0 string_replace_def)

subsection \<open>Formatting one value\<close>

text \<open>
  C3, as stated, wants an error whenever the values do not match the placeholders, also
  when there are fewer values than placeholders. With one value for two placeholders the
  code returns the partly substituted string.
\<close>

theorem format_fewer_arguments_counterexample:
  "format ''{0}-{1}'' [IntArg 42] = Inr ''42-{1}''"
  by (simp add: format_single to_string_42 string_replace_def)

text \<open>
  C3, amended: with one value, formatting throws \<^verbatim>\<open>std::out_of_range\<close> when
  \<^verbatim>\<open>{0}\<close> does not occur in the template, and otherwise returns the template with the
  first occurrence of \<^verbatim>\<open>{0}\<close> replaced by the text of the value and every other
  character kept, placeholders without a value among them.
\<close>

theorem format_one_value:
  "format str [IntArg i] =
     (case string_find str ''{0}'' of
        None \<Rightarrow> Inl OutOfRange
      | Some n \<Rightarrow> Inr (take n str @ to_string i @ drop (n + 3) str)) \<and>
   format str [StrArg s] =
     (case string_find str ''{0}'' of
        None \<Rightarrow> Inl OutOfRange
      | Some n \<Rightarrow> Inr (take n str @ s @ drop (n + 3) str))"
  by (simp add: format_single string_replace_found split: option.splits)
     (simp add: string_replace_def)

subsection \<open>The assembled line\<close>

text \<open>
  C8: the message every handler is called with is the thread identifier, a colon and a
  space, the text, and in parentheses the file, a colon and the line number; the line
  number is what the formatter makes of the template \<^verbatim>\<open>{0}\<close> and the line.
\<close>

theorem write_message_assembles:
  "format ''{0}'' [IntArg line] = Inr (to_string line) \<and>
   write_message L lvl text file line w =
     Inr (call_handlers (handlers L) (this L) lvl
            (thread_id w @ '': '' @ text @ '' ('' @ file @ '':'' @ to_string line @ '')'') w) \<and>
   calls (write_message L lvl text file line w) =
     Some (invocations w @
           records_for (handlers L) (this L) lvl
             (thread_id w @ '': '' @ text @ '' ('' @ file @ '':'' @ to_string line @ '')'')
             (clock w) (reads w)) \<and>
   map inv_message
     (records_for (handlers L) (this L) lvl
        (thread_id w @ '': '' @ text @ '' ('' @ file @ '':'' @ to_string line @ '')'')
        (clock w) (reads w)) =
     replicate (length (handlers L))
       (thread_id w @ '': '' @ text @ '' ('' @ file @ '':'' @ to_string line @ '')'')"
proof -
  have "calls (write_message L lvl text file line w) =
     Some (invocations w @
           records_for (handlers L) (this L) lvl (assembled w text file line)
             (clock w) (reads w))"
    by (simp add: write_message_eq calls_def)
  moreover have "write_message L lvl text file line w =
     Inr (call_handlers (handlers L) (this L) lvl (assembled w text file line) w)"
    by (simp add: write_message_def format_line)
  ultimately show ?thesis
    using format_line [of line] records_for_messages by blast
qed

subsection \<open>The level NONE\<close>

text \<open>
  C6: after \<^verbatim>\<open>set_level(LOG_LEVEL_NONE)\<close> none of \<^verbatim>\<open>debug\<close>, \<^verbatim>\<open>info\<close>,
  \<^verbatim>\<open>warn\<close>, \<^verbatim>\<open>error\<close> and \<^verbatim>\<open>warn_once\<close> calls a handler.
\<close>

theorem threshold_NONE_suppresses:
  "calls (debug (set_level LOG_LEVEL_NONE L) text file line w) = Some (invocations w) \<and>
   calls (info (set_level LOG_LEVEL_NONE L) text file line w) = Some (invocations w) \<and>
   calls (warn (set_level LOG_LEVEL_NONE L) text file line w) = Some (invocations w) \<and>
   calls (error (set_level LOG_LEVEL_NONE L) text file line w) = Some (invocations w) \<and>
   calls (warn_once (set_level LOG_LEVEL_NONE L) text file line w) = Some (invocations w)"
  by (simp add: debug_def info_def warn_def error_def warn_once_def set_level_def calls_def
        warned_insert_def)

subsection \<open>Warning once\<close>

text \<open>
  C7: with the line \<open>-1\<close>, \<^verbatim>\<open>warn_once\<close> is \<^verbatim>\<open>warn\<close> with the same arguments:
  the same result, the table \<open>warned\<close> untouched, and the handler calls the same
  whatever the table holds.
\<close>

theorem warn_once_without_line:
  "warn_once L text file (- 1) w = warn L text file (- 1) w \<and>
   map_sum id warned (warn_once L text file (- 1) w) = Inr (warned w) \<and>
   calls (warn_once L text file (- 1) (w\<lparr>warned := m\<rparr>)) = calls (warn_once L text file (- 1) w)"
  by (simp add: warn_once_def warn_def write_message_eq calls_def)

text \<open>
  C4: for a logger that lets \<^verbatim>\<open>LOG_LEVEL_WARN\<close> through and a line other than
  \<open>-1\<close> whose key (file, line) the table does not hold yet, two calls of
  \<^verbatim>\<open>warn_once\<close> with that key, the second from any logger, make the handler calls of
  one warning: one per attached handler, in order, so exactly one when one handler is
  attached. A second call with another new line of the same file makes the handler calls
  of two warnings. The key is in the table after the first call, and so is every key that
  was there before.
\<close>

theorem warn_once_dedup:
  assumes "level_val LOG_LEVEL_WARN \<le> level_val (level L)"
    and "line \<noteq> - 1" and "\<not> already_logged w file line"
  shows
   "calls (and_then (warn_once L text file line w) (warn_once L2 text2 file line)) =
      Some (invocations w @
            records_for (handlers L) (this L) ''WARN'' (assembled w text file line)
              (clock w) (reads w)) \<and>
    map inv_handler
      (records_for (handlers L) (this L) ''WARN'' (assembled w text file line)
         (clock w) (reads w)) = handlers L \<and>
    (handlers L = [h] \<longrightarrow>
       calls (and_then (warn_once L text file line w) (warn_once L2 text2 file line)) =
         Some (invocations w @
               [\<lparr>inv_handler = h, inv_logger = this L, inv_time = clock w (reads w),
                  inv_level = ''WARN'', inv_message = assembled w text file line\<rparr>])) \<and>
    (line2 \<noteq> - 1 \<and> line2 \<noteq> line \<and> \<not> already_logged w file line2 \<longrightarrow>
       calls (and_then (warn_once L text file line w) (warn_once L text file line2)) =
         Some (invocations w @
               records_for (handlers L) (this L) ''WARN'' (assembled w text file line)
                 (clock w) (reads w) @
               records_for (handlers L) (this L) ''WARN'' (assembled w text file line2)
                 (clock w) (reads w + length (handlers L)))) \<and>
    (\<exists>w'. warn_once L text file line w = Inr w' \<and> already_logged w' file line \<and>
          (already_logged w f l \<longrightarrow> already_logged w' f l))"
proof -
  define w1 where "w1 = (warned_insert file line w)\<lparr>invocations := invocations w @
              records_for (handlers L) (this L) ''WARN'' (assembled w text file line)
                (clock w) (reads w),
            reads := reads w + length (handlers L)\<rparr>"
  have first: "warn_once L text file line w = Inr w1"
    using assms by (simp add: w1_def warn_once_fresh warn_emits warned_insert_fields)
  have inv1: "invocations w1 = invocations w @
              records_for (handlers L) (this L) ''WARN'' (assembled w text file line)
                (clock w) (reads w)"
    and rd1: "reads w1 = reads w + length (handlers L)"
    and clk1: "clock w1 = clock w" and tid1: "thread_id w1 = thread_id w"
    by (simp_all add: w1_def warned_insert_fields)
  have logged1: "already_logged w1 f' l' \<longleftrightarrow> already_logged w f' l' \<or> (f' = file \<and> l' = line)"
    for f' l'
    by (simp add: w1_def already_logged_other_fields already_logged_warned_insert)
  have second: "warn_once L2 text2 file line w1 = Inr w1"
    using assms(2) by (rule warn_once_seen) (simp add: logged1)
  have a: "calls (and_then (warn_once L text file line w) (warn_once L2 text2 file line)) =
      Some (invocations w @
            records_for (handlers L) (this L) ''WARN'' (assembled w text file line)
              (clock w) (reads w))"
    by (simp only: first and_then_def sum.case second calls_def inv1)
  have b: "handlers L = [h] \<longrightarrow>
       calls (and_then (warn_once L text file line w) (warn_once L2 text2 file line)) =
         Some (invocations w @
               [\<lparr>inv_handler = h, inv_logger = this L, inv_time = clock w (reads w),
                  inv_level = ''WARN'', inv_message = assembled w text file line\<rparr>])"
    using a by simp
  have c: "calls (and_then (warn_once L text file line w) (warn_once L text file line2)) =
         Some (invocations w @
               records_for (handlers L) (this L) ''WARN'' (assembled w text file line)
                 (clock w) (reads w) @
               records_for (handlers L) (this L) ''WARN'' (assembled w text file line2)
                 (clock w) (reads w + length (handlers L)))"
    if "line2 \<noteq> - 1" "line2 \<noteq> line" "\<not> already_logged w file line2"
  proof -
    have "\<not> already_logged w1 file line2"
      using that by (simp add: logged1)
    with that(1) have "warn_once L text file line2 w1 =
        warn L text file line2 (warned_insert file line2 w1)"
      by (simp add: warn_once_fresh)
    also have "\<dots> = Inr ((warned_insert file line2 w1)\<lparr>invocations := invocations w1 @
              records_for (handlers L) (this L) ''WARN'' (assembled w1 text file line2)
                (clock w1) (reads w1),
            reads := reads w1 + length (handlers L)\<rparr>)"
      using assms(1) by (simp add: warn_emits warned_insert_fields)
    finally have "calls (warn_once L text file line2 w1) =
        Some (invocations w1 @
              records_for (handlers L) (this L) ''WARN'' (assembled w1 text file line2)
                (clock w1) (reads w1))"
      by (simp add: calls_def)
    then show ?thesis
      by (simp only: first and_then_def sum.case inv1 rd1 clk1 tid1 append_assoc)
  qed
  have d: "already_logged w1 file line \<and> (already_logged w f l \<longrightarrow> already_logged w1 f l)"
    by (simp add: logged1)
  from a b c first d show ?thesis
    using records_for_handlers by blast
qed

text \<open>A logger with one handler: two calls at line 10 of \<^verbatim>\<open>f.cpp\<close> call the handler
  once, a call at line 10 and one at line 11 call it twice.\<close>

theorem warn_once_dedup_witness:
  "level_val LOG_LEVEL_WARN \<le> level_val LOG_LEVEL_DEBUG \<and> (10 :: int32) \<noteq> - 1 \<and>
   \<not> already_logged
        \<lparr>invocations = [], warned = map_of [(''g.cpp'', {3})], clock = id, reads = 0,
          thread_id = ''7''\<rparr> ''f.cpp'' 10 \<and>
   calls (and_then
            (warn_once \<lparr>this = 0, name = ''root'', handlers = [1], level = LOG_LEVEL_DEBUG\<rparr>
               ''x'' ''f.cpp'' 10
               \<lparr>invocations = [], warned = map_of [(''g.cpp'', {3})], clock = id, reads = 0,
                 thread_id = ''7''\<rparr>)
            (warn_once \<lparr>this = 0, name = ''root'', handlers = [1], level = LOG_LEVEL_DEBUG\<rparr>
               ''x'' ''f.cpp'' 10)) =
     Some [\<lparr>inv_handler = 1, inv_logger = 0, inv_time = 0, inv_level = ''WARN'',
             inv_message = ''7: x (f.cpp:10)''\<rparr>] \<and>
   calls (and_then
            (warn_once \<lparr>this = 0, name = ''root'', handlers = [1], level = LOG_LEVEL_DEBUG\<rparr>
               ''x'' ''f.cpp'' 10
               \<lparr>invocations = [], warned = map_of [(''g.cpp'', {3})], clock = id, reads = 0,
                 thread_id = ''7''\<rparr>)
            (warn_once \<lparr>this = 0, name = ''root'', handlers = [1], level = LOG_LEVEL_DEBUG\<rparr>
               ''x'' ''f.cpp'' 11)) =
     Some [\<lparr>inv_handler = 1, inv_logger = 0, inv_time = 0, inv_level = ''WARN'',
             inv_message = ''7: x (f.cpp:10)''\<rparr>,
           \<lparr>inv_handler = 1, inv_logger = 0, inv_time = 1, inv_level = ''WARN'',
             inv_message = ''7: x (f.cpp:11)''\<rparr>]"
proof -
  let ?w = "\<lparr>invocations = [], warned = map_of [(''g.cpp'', {3})], clock = id, reads = 0,
             thread_id = ''7''\<rparr>"
  let ?L = "\<lparr>this = 0, name = ''root'', handlers = [1], level = LOG_LEVEL_DEBUG\<rparr>"
  have h1: "level_val LOG_LEVEL_WARN \<le> level_val (level ?L)" by simp
  have h2: "(10 :: int32) \<noteq> - 1" by simp
  have h3: "\<not> already_logged ?w ''f.cpp'' 10" by (simp add: already_logged_def)
  have h4: "(11 :: int32) \<noteq> - 1 \<and> (11 :: int32) \<noteq> 10 \<and> \<not> already_logged ?w ''f.cpp'' 11"
    by (simp add: already_logged_def)
  have h5: "already_logged ?w ''g.cpp'' 3" by (simp add: already_logged_def)
  show ?thesis
    using h1 h2 h3 h4 h5
      warn_once_dedup [OF h1 h2 h3, of "''x''" ?L "''x''" 1 11 "''g.cpp''" 3]
    by (simp add: to_string_10 to_string_11 enumerate_eq_zip upt_rec)
qed

text \<open>
  C9: a call of \<^verbatim>\<open>warn_once\<close> with a line other than \<open>-1\<close> and a key the table
  does not hold yet puts the key into the table also when the logger's level is below
  \<^verbatim>\<open>LOG_LEVEL_WARN\<close> and the warning itself is dropped; a later call with the same
  key calls no handler, whatever the level has been set to in between.
\<close>

theorem warn_once_marks_when_suppressed:
  assumes "line \<noteq> - 1" and "\<not> already_logged w file line"
    and "level_val (level L) < level_val LOG_LEVEL_WARN"
  shows "warn_once L text file line w = Inr (warned_insert file line w) \<and>
    already_logged (warned_insert file line w) file line \<and>
    invocations (warned_insert file line w) = invocations w \<and>
    warn_once (set_level lvl L) text2 file line (warned_insert file line w) =
      Inr (warned_insert file line w) \<and>
    calls (and_then (warn_once L text file line w) (warn_once (set_level lvl L) text2 file line)) =
      Some (invocations w)"
proof -
  have first: "warn_once L text file line w = Inr (warned_insert file line w)"
    using assms by (simp add: warn_once_fresh warn_suppressed)
  have seen: "already_logged (warned_insert file line w) file line"
    by (simp add: already_logged_warned_insert)
  have second: "warn_once (set_level lvl L) text2 file line (warned_insert file line w) =
      Inr (warned_insert file line w)"
    using assms(1) seen by (rule warn_once_seen)
  have "calls (and_then (warn_once L text file line w)
                 (warn_once (set_level lvl L) text2 file line)) = Some (invocations w)"
    by (simp only: first and_then_def sum.case second calls_def warned_insert_fields)
  with first seen second show ?thesis
    by (simp add: warned_insert_fields)
qed

text \<open>A logger at \<^verbatim>\<open>LOG_LEVEL_ERROR\<close> warns once at line 10 of \<^verbatim>\<open>f.cpp\<close>, is set
  to \<^verbatim>\<open>LOG_LEVEL_DEBUG\<close> and warns once there again: no handler is called.\<close>

theorem warn_once_marks_when_suppressed_witness:
  "(10 :: int32) \<noteq> - 1 \<and>
   \<not> already_logged
        \<lparr>invocations = [], warned = map_of [], clock = id, reads = 0, thread_id = ''7''\<rparr>
        ''f.cpp'' 10 \<and>
   level_val LOG_LEVEL_ERROR < level_val LOG_LEVEL_WARN \<and>
   calls (and_then
            (warn_once \<lparr>this = 0, name = ''root'', handlers = [1], level = LOG_LEVEL_ERROR\<rparr>
               ''x'' ''f.cpp'' 10
               \<lparr>invocations = [], warned = map_of [], clock = id, reads = 0,
                 thread_id = ''7''\<rparr>)
            (warn_once
               (set_level LOG_LEVEL_DEBUG
                  \<lparr>this = 0, name = ''root'', handlers = [1], level = LOG_LEVEL_ERROR\<rparr>)
               ''x'' ''f.cpp'' 10)) = Some []"
proof -
  let ?w = "\<lparr>invocations = [], warned = map_of [], clock = id,
             reads = 0, thread_id = ''7''\<rparr>"
  let ?L = "\<lparr>this = 0, name = ''root'', handlers = [1], level = LOG_LEVEL_ERROR\<rparr>"
  have h1: "(10 :: int32) \<noteq> - 1" by simp
  have h2: "\<not> already_logged ?w ''f.cpp'' 10" by (simp add: already_logged_def)
  have h3: "level_val (level ?L) < level_val LOG_LEVEL_WARN" by simp
  have "calls (and_then (warn_once ?L ''x'' ''f.cpp'' 10 ?w)
                 (warn_once (set_level LOG_LEVEL_DEBUG ?L) ''x'' ''f.cpp'' 10)) =
          Some (invocations ?w)"
    using warn_once_marks_when_suppressed [OF h1 h2 h3, of "''x''" LOG_LEVEL_DEBUG "''x''"]
    by blast
  with h1 h2 h3 show ?thesis
    by simp
qed

subsection \<open>Two handlers\<close>

text \<open>
  C5, as stated, has both handlers receive the same timestamp. The loop of
  \<^verbatim>\<open>write_message\<close> calls \<^verbatim>\<open>system_clock::now()\<close> once for each handler; with a
  clock that moves between the two readings the handlers get different times.
\<close>

theorem info_same_timestamp_counterexample:
  "calls (info \<lparr>this = 0, name = ''root'', handlers = [1, 2], level = LOG_LEVEL_DEBUG\<rparr>
            ''hello'' ''None'' (- 1)
            \<lparr>invocations = [], warned = map_of [], clock = id, reads = 0, thread_id = ''7''\<rparr>) =
     Some [\<lparr>inv_handler = 1, inv_logger = 0, inv_time = 0, inv_level = ''INFO'',
             inv_message = ''7: hello (None:-1)''\<rparr>,
           \<lparr>inv_handler = 2, inv_logger = 0, inv_time = 1, inv_level = ''INFO'',
             inv_message = ''7: hello (None:-1)''\<rparr>]"
  by (simp add: info_def write_message_eq calls_def to_string_minus_1 enumerate_eq_zip upt_rec)

text \<open>
  C5, amended: for a logger with two handlers at \<^verbatim>\<open>LOG_LEVEL_DEBUG\<close>, one call of
  \<^verbatim>\<open>info\<close> makes exactly two handler calls, the first handler before the second, both
  with the level name \<^verbatim>\<open>INFO\<close> and the same assembled message; the time of each call
  is a reading of the clock of its own, the second taken after the first.
\<close>

theorem info_two_handlers:
  assumes "handlers L = [h1, h2]" and "level L = LOG_LEVEL_DEBUG"
  shows "calls (info L text file line w) =
     Some (invocations w @
           [\<lparr>inv_handler = h1, inv_logger = this L, inv_time = clock w (reads w),
              inv_level = ''INFO'', inv_message = assembled w text file line\<rparr>,
            \<lparr>inv_handler = h2, inv_logger = this L, inv_time = clock w (Suc (reads w)),
              inv_level = ''INFO'', inv_message = assembled w text file line\<rparr>])"
  using assms by (simp add: info_def write_message_eq calls_def)

text \<open>The call \<^verbatim>\<open>info("hello")\<close>, with the default file and line, on a clock that
  shows 5 and then 6.\<close>

theorem info_two_handlers_witness:
  "handlers \<lparr>this = 0, name = ''root'', handlers = [1, 2], level = LOG_LEVEL_DEBUG\<rparr> = [1, 2] \<and>
   level \<lparr>this = 0, name = ''root'', handlers = [1, 2], level = LOG_LEVEL_DEBUG\<rparr> = LOG_LEVEL_DEBUG \<and>
   calls (info \<lparr>this = 0, name = ''root'', handlers = [1, 2], level = LOG_LEVEL_DEBUG\<rparr>
            ''hello'' ''None'' (- 1)
            \<lparr>invocations = [], warned = map_of [], clock = (+) 5, reads = 0, thread_id = ''7''\<rparr>) =
     Some [\<lparr>inv_handler = 1, inv_logger = 0, inv_time = 5, inv_level = ''INFO'',
             inv_message = ''7: hello (None:-1)''\<rparr>,
           \<lparr>inv_handler = 2, inv_logger = 0, inv_time = 6, inv_level = ''INFO'',
             inv_message = ''7: hello (None:-1)''\<rparr>]"
proof -
  let ?L = "\<lparr>this = 0, name = ''root'', handlers = [1, 2], level = LOG_LEVEL_DEBUG\<rparr>"
  have h1: "handlers ?L = [1, 2]" by simp
  have h2: "level ?L = LOG_LEVEL_DEBUG" by simp
  show ?thesis
    using info_two_handlers [OF h1 h2, of "''hello''" "''None''" "- 1"
        "\<lparr>invocations = [], warned = map_of [], clock = (+) 5, reads = 0, thread_id = ''7''\<rparr>"]
    by (simp add: to_string_minus_1)
qed

end
